theory Spec2Isabelle
  imports Complex_Main "HOL-Library.AList"
begin

section \<open>Source payloads\<close>

text \<open>
  A payload is one JSON object of the listing endpoint, with the keys the program reads
  and values of the types the listing documents (\<open>distance\<close> is a JSON number that is
  only stored, never computed with). Python tells three cases apart
  for a key of a dict: the key is missing, its value is \<open>None\<close> (JSON null), or it
  holds a value. \<open>d.get(k)\<close> gives \<open>None\<close> in the first two cases, \<open>d.get(k, default)\<close>
  gives the default only in the first, and \<open>d[k]\<close> raises \<open>KeyError\<close> in the first.
\<close>

datatype 'a field = Absent | Null | Present 'a

datatype exn = KeyError | AttributeError | ValueError | TypeError

fun get :: "'a field \<Rightarrow> 'a option" where
  "get Absent = None"
| "get Null = None"
| "get (Present v) = Some v"

fun get_default :: "'a field \<Rightarrow> 'a \<Rightarrow> 'a option" where
  "get_default Absent d = Some d"
| "get_default Null d = None"
| "get_default (Present v) d = Some v"

record breeds =
  b_primary :: "string field"
  b_secondary :: "string field"
  b_mixed :: "bool field"
  b_unknown :: "bool field"

record colors =
  c_primary :: "string field"
  c_secondary :: "string field"
  c_tertiary :: "string field"

record attributes =
  a_spayed_neutered :: "bool field"
  a_house_trained :: "bool field"
  a_declawed :: "bool field"
  a_special_needs :: "bool field"
  a_shots_current :: "bool field"

record environment =
  e_children :: "bool field"
  e_dogs :: "bool field"
  e_cats :: "bool field"

record address =
  addr_city :: "string field"
  addr_state :: "string field"
  addr_postcode :: "string field"
  addr_country :: "string field"

record contact =
  ct_address :: "address field"

record payload =
  p_id :: "int field"
  p_organization_id :: "string field"
  p_name :: "string field"
  p_species :: "string field"
  p_breeds :: "breeds field"
  p_age :: "string field"
  p_gender :: "string field"
  p_size :: "string field"
  p_coat :: "string field"
  p_colors :: "colors field"
  p_status :: "string field"
  p_attributes :: "attributes field"
  p_environment :: "environment field"
  p_description :: "string field"
  p_photos :: "string list field"
  p_videos :: "string list field"
  p_contact :: "contact field"
  p_published_at :: "string field"
  p_status_changed_at :: "string field"
  p_distance :: "rat field"

text \<open>The empty dict \<open>{}\<close> that \<open>data.get('breeds', {})\<close> and its siblings default to.\<close>

definition no_breeds :: breeds where
  "no_breeds = \<lparr>b_primary = Absent, b_secondary = Absent, b_mixed = Absent, b_unknown = Absent\<rparr>"

definition no_colors :: colors where
  "no_colors = \<lparr>c_primary = Absent, c_secondary = Absent, c_tertiary = Absent\<rparr>"

definition no_attributes :: attributes where
  "no_attributes = \<lparr>a_spayed_neutered = Absent, a_house_trained = Absent, a_declawed = Absent,
     a_special_needs = Absent, a_shots_current = Absent\<rparr>"

definition no_environment :: environment where
  "no_environment = \<lparr>e_children = Absent, e_dogs = Absent, e_cats = Absent\<rparr>"

definition no_address :: address where
  "no_address = \<lparr>addr_city = Absent, addr_state = Absent, addr_postcode = Absent,
     addr_country = Absent\<rparr>"

definition no_contact :: contact where
  "no_contact = \<lparr>ct_address = Absent\<rparr>"

section \<open>The animals table\<close>

datatype datetime = DateTime (dt_year: nat) (dt_month: nat) (dt_day: nat)
  (dt_hour: nat) (dt_minute: nat) (dt_second: nat) (dt_microsecond: nat)
  (dt_utcoffset: "int option")

record animal =
  row_id :: "nat option"
  petfinder_id :: string
  organization_id :: "string option"
  name :: "string option"
  species :: "string option"
  breed_primary :: "string option"
  breed_secondary :: "string option"
  breed_mixed :: "bool option"
  breed_unknown :: "bool option"
  age :: "string option"
  gender :: "string option"
  size_col :: "string option"
  coat :: "string option"
  color_primary :: "string option"
  color_secondary :: "string option"
  color_tertiary :: "string option"
  status :: "string option"
  spayed_neutered :: "bool option"
  house_trained :: "bool option"
  declawed :: "bool option"
  special_needs :: "bool option"
  shots_current :: "bool option"
  good_with_children :: "bool option"
  good_with_dogs :: "bool option"
  good_with_cats :: "bool option"
  description :: "string option"
  photos :: "string list option"
  videos :: "string list option"
  city :: "string option"
  state :: "string option"
  postcode :: "string option"
  country :: "string option"
  published_at :: "datetime option"
  status_changed_at :: "datetime option"
  distance :: "rat option"
  scraped_at :: "datetime option"
  last_updated :: "datetime option"
  raw_data :: payload

section \<open>Requests, replies and the outside world\<close>

datatype pyval = PStr string | PInt int

type_synonym params = "(string \<times> pyval) list"

datatype request =
    PostToken "string option" "string option"
  | Get string "string option" params

record token_data =
  access_token :: string
  expires_in :: int

record response =
  r_animals :: "payload list option"
  r_total_pages :: "int option"

text \<open>
  Everything the program does not decide itself: the two clocks, the library's timestamp
  parser and the server. A clock is read through a counter, so that successive readings
  are unrelated; the server may answer from the whole history of requests it has seen.
  Instants of the local clock are microsecond counts, since the token code only adds a
  duration to one and compares two. A reply \<open>None\<close> is a
  \<open>requests.exceptions.RequestException\<close> (transport failure or a non-2xx status); a
  parse \<open>None\<close> is the \<open>ValueError\<close> of \<open>datetime.fromisoformat\<close>. A granted
  token reply carries both \<open>access_token\<close> and \<open>expires_in\<close>. The calls of
  \<open>time.sleep\<close> only let time pass, which shows in later clock readings and nowhere
  else; the \<open>print\<close> calls are left out.
\<close>

record env =
  now_at :: "nat \<Rightarrow> int"
  utcnow_at :: "nat \<Rightarrow> datetime"
  fromisoformat :: "string \<Rightarrow> datetime option"
  post_token :: "request list \<Rightarrow> request \<Rightarrow> token_data option"
  get_json :: "request list \<Rightarrow> request \<Rightarrow> response option"

text \<open>
  The state of a collector: the API client's credentials and token, the animals table,
  the requests sent so far and the number of clock readings taken. \<open>token\<close> and
  \<open>token_expires\<close> are assigned together in \<open>authenticate\<close> and nowhere else, so
  they are one optional pair.
\<close>

record world =
  api_key :: "string option"
  secret :: "string option"
  bearer :: "(string \<times> int) option"
  table :: "animal list"
  sent :: "request list"
  clock_reads :: nat

definition token :: "world \<Rightarrow> string option" where
  "token w = map_option fst (bearer w)"

definition token_expires :: "world \<Rightarrow> int option" where
  "token_expires w = map_option snd (bearer w)"

section \<open>database.py\<close>

subsection \<open>Python helpers\<close>

text \<open>\<open>str\<close> of an integer, and of the \<open>data['id']\<close> subscript (\<open>str(None)\<close> is \<open>'None'\<close>).\<close>

definition digit_char :: "nat \<Rightarrow> char" where
  "digit_char d = char_of (48 + d)"

fun str_nat :: "nat \<Rightarrow> string" where
  "str_nat n =
     (if 10 \<le> n then str_nat (n div 10) @ [digit_char (n mod 10)] else [digit_char n])"

declare str_nat.simps [simp del]

definition str_int :: "int \<Rightarrow> string" where
  "str_int i = (if i < 0 then CHR ''-'' # str_nat (nat (- i)) else str_nat (nat i))"

fun str_id :: "int field \<Rightarrow> exn + string" where
  "str_id Absent = Inl KeyError"
| "str_id Null = Inr ''None''"
| "str_id (Present i) = Inr (str_int i)"

text \<open>
  \<open>d.get(k, {})\<close> followed by a \<open>.get\<close> on the result: a missing section is the
  empty dict, a null one is \<open>None\<close>, which has no \<open>get\<close>.
\<close>

fun section_of :: "'a field \<Rightarrow> 'a \<Rightarrow> exn + 'a" where
  "section_of Absent d = Inr d"
| "section_of Null d = Inl AttributeError"
| "section_of (Present v) d = Inr v"

text \<open>\<open>s.replace('Z', '+00:00')\<close>\<close>

definition replace_Z :: "string \<Rightarrow> string" where
  "replace_Z s = concat (map (\<lambda>c. if c = CHR ''Z'' then ''+00:00'' else [c]) s)"

text \<open>
  \<open>datetime.fromisoformat(data[k].replace('Z', '+00:00')) if data.get(k) else None\<close>:
  a missing, null or empty string is falsy.
\<close>

definition parse_timestamp :: "env \<Rightarrow> string field \<Rightarrow> exn + datetime option" where
  "parse_timestamp E f =
     (case get f of
        None \<Rightarrow> Inr None
      | Some s \<Rightarrow>
          if s = [] then Inr None
          else (case fromisoformat E (replace_Z s) of
                  None \<Rightarrow> Inl ValueError
                | Some d \<Rightarrow> Inr (Some d)))"

subsection \<open>The two converters\<close>

text \<open>
  An exception leaves the enclosing \<open>try\<close> block at once: the steps of a block are
  chained so that the first \<open>Inl\<close> is the result.
\<close>

definition and_then :: "exn + 'a \<Rightarrow> ('a \<Rightarrow> exn + 'b) \<Rightarrow> exn + 'b" where
  "and_then r k = (case r of Inl e \<Rightarrow> Inl e | Inr v \<Rightarrow> k v)"

text \<open>The keyword arguments of \<open>Animal(...)\<close>, once every lookup has succeeded.\<close>

definition new_animal :: "string \<Rightarrow> payload \<Rightarrow> breeds \<Rightarrow> colors \<Rightarrow> attributes \<Rightarrow> environment
    \<Rightarrow> address \<Rightarrow> datetime option \<Rightarrow> datetime option \<Rightarrow> animal" where
  "new_animal pid data breeds colors attributes environment address published changed =
     \<lparr>row_id = None,
      petfinder_id = pid,
      organization_id = get (p_organization_id data),
      name = get (p_name data),
      species = get (p_species data),
      breed_primary = get (b_primary breeds),
      breed_secondary = get (b_secondary breeds),
      breed_mixed = get (b_mixed breeds),
      breed_unknown = get (b_unknown breeds),
      age = get (p_age data),
      gender = get (p_gender data),
      size_col = get (p_size data),
      coat = get (p_coat data),
      color_primary = get (c_primary colors),
      color_secondary = get (c_secondary colors),
      color_tertiary = get (c_tertiary colors),
      status = get (p_status data),
      spayed_neutered = get (a_spayed_neutered attributes),
      house_trained = get (a_house_trained attributes),
      declawed = get (a_declawed attributes),
      special_needs = get (a_special_needs attributes),
      shots_current = get (a_shots_current attributes),
      good_with_children = get (e_children environment),
      good_with_dogs = get (e_dogs environment),
      good_with_cats = get (e_cats environment),
      description = get (p_description data),
      photos = get_default (p_photos data) [],
      videos = get_default (p_videos data) [],
      city = get (addr_city address),
      state = get (addr_state address),
      postcode = get (addr_postcode address),
      country = get (addr_country address),
      published_at = published,
      status_changed_at = changed,
      distance = get (p_distance data),
      scraped_at = None,
      last_updated = None,
      raw_data = data\<rparr>"

definition create_animal_from_data :: "env \<Rightarrow> payload \<Rightarrow> exn + animal" where
  "create_animal_from_data E data =
     and_then (section_of (p_contact data) no_contact) (\<lambda>contact.
     and_then (str_id (p_id data)) (\<lambda>pid.
     and_then (section_of (p_breeds data) no_breeds) (\<lambda>breeds.
     and_then (section_of (p_colors data) no_colors) (\<lambda>colors.
     and_then (section_of (p_attributes data) no_attributes) (\<lambda>attributes.
     and_then (section_of (p_environment data) no_environment) (\<lambda>environment.
     and_then (section_of (ct_address contact) no_address) (\<lambda>address.
     and_then (parse_timestamp E (p_published_at data)) (\<lambda>published.
     and_then (parse_timestamp E (p_status_changed_at data)) (\<lambda>changed.
     Inr (new_animal pid data breeds colors attributes environment address
            published changed))))))))))"

definition update_animal_from_data :: "env \<Rightarrow> animal \<Rightarrow> payload \<Rightarrow> exn + animal" where
  "update_animal_from_data E animal data =
     (let animal1 = animal\<lparr>status := get (p_status data),
                             description := get (p_description data),
                             photos := get_default (p_photos data) []\<rparr>
      in case parse_timestamp E (p_status_changed_at data) of
           Inl e \<Rightarrow> Inl e
         | Inr None \<Rightarrow> Inr (animal1\<lparr>raw_data := data\<rparr>)
         | Inr (Some d) \<Rightarrow> Inr (animal1\<lparr>status_changed_at := Some d, raw_data := data\<rparr>))"

subsection \<open>save_animal\<close>

text \<open>
  The table is the list of its rows in insertion order. \<open>.first()\<close> of the lookup is the
  first row with the external id; the \<open>UPDATE\<close> of the commit rewrites that row where it
  stands. A new row gets the next integer key, and its two timestamp columns take their
  \<open>default=datetime.utcnow\<close>, each from a reading of its own.
\<close>

fun update_first :: "('a \<Rightarrow> bool) \<Rightarrow> 'a \<Rightarrow> 'a list \<Rightarrow> 'a list" where
  "update_first P y [] = []"
| "update_first P y (x # xs) = (if P x then y # xs else x # update_first P y xs)"

definition next_row_id :: "animal list \<Rightarrow> nat" where
  "next_row_id rows = Suc (fold max (map (\<lambda>a. case row_id a of None \<Rightarrow> 0 | Some n \<Rightarrow> n) rows) 0)"

text \<open>The \<open>try\<close> block: the saved entity and the committed state, or the exception.\<close>

definition save_animal_try :: "env \<Rightarrow> payload \<Rightarrow> world \<Rightarrow> exn + animal \<times> world" where
  "save_animal_try E animal_data w =
     and_then (str_id (p_id animal_data)) (\<lambda>pid.
       case find (\<lambda>a. petfinder_id a = pid) (table w) of
         Some existing \<Rightarrow>
           and_then (update_animal_from_data E existing animal_data) (\<lambda>updated.
             let animal = updated\<lparr>last_updated := Some (utcnow_at E (clock_reads w))\<rparr>
             in Inr (animal,
                  w\<lparr>table := update_first (\<lambda>a. petfinder_id a = pid) animal (table w),
                    clock_reads := Suc (clock_reads w)\<rparr>))
       | None \<Rightarrow>
           and_then (create_animal_from_data E animal_data) (\<lambda>created.
             let animal = created\<lparr>row_id := Some (next_row_id (table w)),
                                  scraped_at := Some (utcnow_at E (clock_reads w)),
                                  last_updated := Some (utcnow_at E (Suc (clock_reads w)))\<rparr>
             in Inr (animal,
                  w\<lparr>table := table w @ [animal],
                    clock_reads := Suc (Suc (clock_reads w))\<rparr>)))"

text \<open>
  The \<open>except Exception\<close> clause: rollback, so the state is the one the call started
  from, and \<open>None\<close> is returned.
\<close>

definition save_animal :: "env \<Rightarrow> payload \<Rightarrow> world \<Rightarrow> animal option \<times> world" where
  "save_animal E animal_data w =
     (case save_animal_try E animal_data w of
        Inl e \<Rightarrow> (None, w)
      | Inr (animal, w') \<Rightarrow> (Some animal, w'))"

section \<open>petfinder_api.py\<close>

definition authenticate :: "env \<Rightarrow> world \<Rightarrow> bool \<times> world" where
  "authenticate E w =
     (let req = PostToken (api_key w) (secret w);
          w1 = w\<lparr>sent := sent w @ [req]\<rparr>
      in case post_token E (sent w) req of
           None \<Rightarrow> (False, w1)
         | Some token_data \<Rightarrow>
             (True, w1\<lparr>bearer := Some (access_token token_data,
                                        now_at E (clock_reads w1)
                                          + 1000000 * (expires_in token_data - 300)),
                       clock_reads := Suc (clock_reads w1)\<rparr>))"

text \<open>
  \<open>if not self.token or datetime.now() >= self.token_expires\<close>: an empty token string is
  falsy, and the clock is read only when a token is held.
\<close>

definition ensure_token_valid :: "env \<Rightarrow> world \<Rightarrow> world" where
  "ensure_token_valid E w =
     (case bearer w of
        None \<Rightarrow> snd (authenticate E w)
      | Some (tok, expires) \<Rightarrow>
          if tok = [] then snd (authenticate E w)
          else let w1 = w\<lparr>clock_reads := Suc (clock_reads w)\<rparr>
               in if now_at E (clock_reads w) \<ge> expires then snd (authenticate E w1) else w1)"

definition make_request :: "env \<Rightarrow> string \<Rightarrow> params \<Rightarrow> world \<Rightarrow> response option \<times> world" where
  "make_request E endpoint ps w =
     (let w1 = ensure_token_valid E w;
          req = Get endpoint (token w1) ps
      in (get_json E (sent w1) req, w1\<lparr>sent := sent w1 @ [req]\<rparr>))"

text \<open>
  \<open>{**filters, 'page': page}\<close> keeps the order of the keys and replaces the value of a key
  that is already there, as \<^const>\<open>AList.update\<close> does.
\<close>

definition page_params :: "params \<Rightarrow> nat \<Rightarrow> params" where
  "page_params filters page =
     (let ps = AList.update ''page'' (PInt (int page)) filters
      in if map_of ps ''limit'' = None then AList.update ''limit'' (PInt 100) ps else ps)"

text \<open>\<open>pagination.get('total_pages', 1)\<close>\<close>

definition total_pages :: "response \<Rightarrow> int" where
  "total_pages d = (case r_total_pages d of None \<Rightarrow> 1 | Some t \<Rightarrow> t)"

text \<open>
  The \<open>while True\<close> loop of \<open>get_animals\<close>, from the state where \<open>page\<close> is the next
  page to ask for and \<open>animals\<close> the records gathered so far. The result \<open>None\<close> is a
  loop that never ends.
\<close>

partial_function (option) get_animals_loop ::
    "env \<Rightarrow> params \<Rightarrow> nat \<Rightarrow> payload list \<Rightarrow> world \<Rightarrow> (payload list \<times> world) option" where
  "get_animals_loop E filters page animals w =
     (case make_request E ''animals'' (page_params filters page) w of
        (None, w1) \<Rightarrow> Some (animals, w1)
      | (Some d, w1) \<Rightarrow>
          (case r_animals d of
             None \<Rightarrow> Some (animals, w1)
           | Some batch \<Rightarrow>
               if batch = [] then Some (animals, w1)
               else if int page \<ge> total_pages d then Some (animals @ batch, w1)
               else get_animals_loop E filters (page + 1) (animals @ batch) w1))"

declare get_animals_loop.simps [code]

definition get_animals :: "env \<Rightarrow> params \<Rightarrow> world \<Rightarrow> (payload list \<times> world) option" where
  "get_animals E filters w = get_animals_loop E filters 1 [] w"

section \<open>data_collector.py\<close>

text \<open>\<open>max_animals and collected_count >= max_animals\<close>: \<open>None\<close> and \<open>0\<close> are falsy.\<close>

definition cap_reached :: "int option \<Rightarrow> int \<Rightarrow> bool" where
  "cap_reached max_animals collected_count =
     (case max_animals of
        None \<Rightarrow> False
      | Some m \<Rightarrow> if m = 0 then False else collected_count \<ge> m)"

text \<open>
  The \<open>for animal_data in batch\<close> loop ends either by the \<open>return collected_count\<close> in
  its body or by running out of records. \<open>save_animal\<close> catches every exception itself,
  so the \<open>except\<close> clause around the call is never entered.
\<close>

datatype for_exit = Return int | Exhausted int

fun save_each :: "env \<Rightarrow> int option \<Rightarrow> payload list \<Rightarrow> int \<Rightarrow> world \<Rightarrow> for_exit \<times> world" where
  "save_each E max_animals [] collected_count w = (Exhausted collected_count, w)"
| "save_each E max_animals (animal_data # batch) collected_count w =
     (case save_animal E animal_data w of
        (None, w1) \<Rightarrow> save_each E max_animals batch collected_count w1
      | (Some saved_animal, w1) \<Rightarrow>
          if cap_reached max_animals (collected_count + 1)
          then (Return (collected_count + 1), w1)
          else save_each E max_animals batch (collected_count + 1) w1)"

text \<open>
  The \<open>while True\<close> loop of \<open>collect_animals\<close>. The list \<open>animals\<close> that the source
  extends with every batch is never read, and is left out.
\<close>

partial_function (option) collect_loop ::
    "env \<Rightarrow> params \<Rightarrow> int option \<Rightarrow> nat \<Rightarrow> int \<Rightarrow> world \<Rightarrow> (int \<times> world) option" where
  "collect_loop E filters max_animals page collected_count w =
     Option.bind
       (get_animals E
          (AList.update ''limit'' (PInt 100) (AList.update ''page'' (PInt (int page)) filters)) w)
       (\<lambda>(batch, w1).
          if batch = [] then Some (collected_count, w1)
          else (case save_each E max_animals batch collected_count w1 of
                  (Return n, w2) \<Rightarrow> Some (n, w2)
                | (Exhausted n, w2) \<Rightarrow> collect_loop E filters max_animals (page + 1) n w2))"

declare collect_loop.simps [code]

text \<open>
  The result of \<open>collect_animals\<close> is the Python value returned: \<open>None\<close> for the bare
  \<open>return\<close> after a failed authentication, the count otherwise.
\<close>

definition collect_animals ::
    "env \<Rightarrow> params \<Rightarrow> int option \<Rightarrow> world \<Rightarrow> (int option \<times> world) option" where
  "collect_animals E filters max_animals w =
     (case authenticate E w of
        (False, w1) \<Rightarrow> Some (None, w1)
      | (True, w1) \<Rightarrow>
          map_option (\<lambda>(n, w2). (Some n, w2)) (collect_loop E filters max_animals 1 0 w1))"

text \<open>\<open>a + b\<close> on two results of \<open>collect_animals\<close>: \<open>None\<close> has no addition.\<close>

fun py_add :: "int option \<Rightarrow> int option \<Rightarrow> exn + int" where
  "py_add (Some a) (Some b) = Inr (a + b)"
| "py_add _ _ = Inl TypeError"

definition sample_filters :: "string \<Rightarrow> params" where
  "sample_filters location =
     [(''location'', PStr location), (''distance'', PInt 50), (''status'', PStr ''adoptable'')]"

definition collect_sample_data ::
    "env \<Rightarrow> string \<Rightarrow> int \<Rightarrow> world \<Rightarrow> ((exn + int) \<times> world) option" where
  "collect_sample_data E location sample_size w =
     Option.bind
       (collect_animals E (AList.update ''type'' (PStr ''dog'') (sample_filters location))
          (Some (sample_size div 2)) w)
       (\<lambda>(dogs_collected, w1).
          Option.bind
            (collect_animals E (AList.update ''type'' (PStr ''cat'') (sample_filters location))
               (Some (sample_size div 2)) w1)
            (\<lambda>(cats_collected, w2). Some (py_add dogs_collected cats_collected, w2)))"

definition region_filters :: "string \<Rightarrow> params" where
  "region_filters region =
     [(''location'', PStr region), (''distance'', PInt 25), (''status'', PStr ''adoptable'')]"

fun region_loop ::
    "env \<Rightarrow> int \<Rightarrow> string list \<Rightarrow> int \<Rightarrow> world \<Rightarrow> ((exn + int) \<times> world) option" where
  "region_loop E animals_per_region [] total_collected w = Some (Inr total_collected, w)"
| "region_loop E animals_per_region (region # regions) total_collected w =
     Option.bind
       (collect_animals E (region_filters region) (Some animals_per_region) w)
       (\<lambda>(collected, w1).
          case py_add (Some total_collected) collected of
            Inl e \<Rightarrow> Some (Inl e, w1)
          | Inr new_total \<Rightarrow> region_loop E animals_per_region regions new_total w1)"

definition collect_by_region ::
    "env \<Rightarrow> string list \<Rightarrow> int \<Rightarrow> world \<Rightarrow> ((exn + int) \<times> world) option" where
  "collect_by_region E regions animals_per_region w =
     region_loop E animals_per_region regions 0 w"

section \<open>Vocabulary of the properties\<close>

text \<open>
  The external id of a payload is the key \<open>save_animal\<close> looks it up by. A payload
  is accepted when the create path raises nothing for it; feeding a list of payloads is
  one \<open>save_animal\<close> call per payload, in order.
\<close>

definition external_id :: "payload \<Rightarrow> exn + string" where
  "external_id data = str_id (p_id data)"

definition accepted :: "env \<Rightarrow> payload \<Rightarrow> bool" where
  "accepted E data = (\<not> isl (create_animal_from_data E data))"

fun feed :: "env \<Rightarrow> payload list \<Rightarrow> world \<Rightarrow> world" where
  "feed E [] w = w"
| "feed E (data # rest) w = feed E rest (snd (save_animal E data w))"

text \<open>
  The page a request of the listing endpoint asks for, and the pages asked for over a
  whole log of requests (token requests are not page requests).
\<close>

fun requested_page :: "request \<Rightarrow> pyval option" where
  "requested_page (PostToken k s) = None"
| "requested_page (Get endpoint auth ps) = map_of ps ''page''"

fun pages_requested :: "request list \<Rightarrow> pyval list" where
  "pages_requested [] = []"
| "pages_requested (r # rs) =
     (case requested_page r of
        None \<Rightarrow> pages_requested rs
      | Some p \<Rightarrow> p # pages_requested rs)"

fun token_requests :: "request list \<Rightarrow> nat" where
  "token_requests [] = 0"
| "token_requests (PostToken k s # rs) = Suc (token_requests rs)"
| "token_requests (Get endpoint auth ps # rs) = token_requests rs"

text \<open>
  The continuation test in the words of the specification: the response contains a
  non-empty batch and the reported total page count has not been reached. \<open>batch_of\<close>
  is the batch a reply carries, empty when it carries none.
\<close>

definition batch_of :: "response option \<Rightarrow> payload list" where
  "batch_of reply =
     (case reply of
        None \<Rightarrow> []
      | Some d \<Rightarrow> (case r_animals d of None \<Rightarrow> [] | Some batch \<Rightarrow> batch))"

definition spec_continues :: "response option \<Rightarrow> nat \<Rightarrow> bool" where
  "spec_continues reply page =
     (case reply of
        None \<Rightarrow> False
      | Some d \<Rightarrow> batch_of reply \<noteq> [] \<and> int page < total_pages d)"

text \<open>A server that answers a listing request from its page number alone.\<close>

definition paged :: "(pyval option \<Rightarrow> response option) \<Rightarrow> request list \<Rightarrow> request \<Rightarrow> response option" where
  "paged source h r = source (requested_page r)"

text \<open>
  A mocked outside world for the examples: a frozen local clock, a token endpoint that
  always grants a one-hour token, and a server given by the caller. Its timestamp parser
  reads the one shape \<open>YYYY-MM-DDTHH:MM:SS+00:00\<close>, which every version of
  \<open>datetime.fromisoformat\<close> reads the same way, and rejects any other string (the
  library accepts more shapes; the examples use none of them).
\<close>

definition digit_of :: "char \<Rightarrow> nat option" where
  "digit_of c = (let n = (of_char c :: nat) in if 48 \<le> n \<and> n \<le> 57 then Some (n - 48) else None)"

fun number_of :: "string \<Rightarrow> nat option" where
  "number_of [] = None"
| "number_of [c] = digit_of c"
| "number_of (c # cs) =
     (case (digit_of c, number_of cs) of
        (Some d, Some n) \<Rightarrow> Some (d * 10 ^ length cs + n)
      | _ \<Rightarrow> None)"

definition days_in_month :: "nat \<Rightarrow> nat \<Rightarrow> nat" where
  "days_in_month y m =
     (if m = 2
      then (if y mod 400 = 0 then 29 else if y mod 100 = 0 then 28
            else if y mod 4 = 0 then 29 else 28)
      else if m = 4 \<or> m = 6 \<or> m = 9 \<or> m = 11 then 30 else 31)"

definition fromisoformat_utc :: "string \<Rightarrow> datetime option" where
  "fromisoformat_utc s =
     (if length s = 25 \<and> s ! 4 = CHR ''-'' \<and> s ! 7 = CHR ''-'' \<and> s ! 10 = CHR ''T''
         \<and> s ! 13 = CHR '':'' \<and> s ! 16 = CHR '':'' \<and> drop 19 s = ''+00:00''
      then (case (number_of (take 4 s), number_of (take 2 (drop 5 s)),
                  number_of (take 2 (drop 8 s)), number_of (take 2 (drop 11 s)),
                  number_of (take 2 (drop 14 s)), number_of (take 2 (drop 17 s))) of
              (Some y, Some m, Some d, Some hh, Some mm, Some ss) \<Rightarrow>
                if 1 \<le> y \<and> 1 \<le> m \<and> m \<le> 12 \<and> 1 \<le> d \<and> d \<le> days_in_month y m
                   \<and> hh < 24 \<and> mm < 60 \<and> ss < 60
                then Some (DateTime y m d hh mm ss 0 (Some 0))
                else None
            | _ \<Rightarrow> None)
      else None)"

definition mock_env :: "(request list \<Rightarrow> request \<Rightarrow> response option) \<Rightarrow> env" where
  "mock_env server =
     \<lparr>now_at = (\<lambda>k. 0),
      utcnow_at = (\<lambda>k. DateTime 2024 1 1 0 0 0 k None),
      fromisoformat = fromisoformat_utc,
      post_token = (\<lambda>h r. Some \<lparr>access_token = ''mock-token'', expires_in = 3600\<rparr>),
      get_json = server\<rparr>"

definition new_world :: world where
  "new_world = \<lparr>api_key = Some ''key'', secret = Some ''secret'', bearer = None, table = [],
     sent = [], clock_reads = 0\<rparr>"

definition record_of_id :: "int \<Rightarrow> payload" where
  "record_of_id i =
     \<lparr>p_id = Present i, p_organization_id = Absent, p_name = Absent, p_species = Absent,
      p_breeds = Absent, p_age = Absent, p_gender = Absent, p_size = Absent, p_coat = Absent,
      p_colors = Absent, p_status = Absent, p_attributes = Absent, p_environment = Absent,
      p_description = Absent, p_photos = Absent, p_videos = Absent, p_contact = Absent,
      p_published_at = Absent, p_status_changed_at = Absent, p_distance = Absent\<rparr>"


text \<open>Inputs of the examples.\<close>

definition offline :: env where
  "offline = mock_env (\<lambda>h r. None)"

definition two_records :: "payload list" where
  "two_records =
     [(record_of_id 7)\<lparr>p_name := Present ''Rex'', p_status := Present ''adoptable'',
         p_published_at := Present ''2023-05-01T12:00:00Z''\<rparr>,
      record_of_id 12]"


definition adopted_record :: payload where
  "adopted_record =
     (record_of_id 7)\<lparr>p_status := Present ''adopted'',
        p_status_changed_at := Present ''2023-06-01T09:30:00Z''\<rparr>"


text \<open>
  A token endpoint that grants ten-minute tokens, with a local clock that reads \<open>0\<close>
  when the first token is issued and \<open>t\<close> microseconds ever after.
\<close>

definition short_lived :: "int \<Rightarrow> env" where
  "short_lived t =
     offline\<lparr>now_at := (\<lambda>k. if k = 0 then 0 else t),
             post_token := (\<lambda>h r. Some \<lparr>access_token = ''mock-token'', expires_in = 600\<rparr>)\<rparr>"

text \<open>
  A source of three pages that declares \<open>total_pages = 3\<close> and answers any further page
  with an empty batch, and a source that answers with one full page of 100 records and
  no page count.
\<close>

definition three_pages :: "pyval option \<Rightarrow> response option" where
  "three_pages p =
     (if p = Some (PInt 1)
      then Some \<lparr>r_animals = Some [record_of_id 1, record_of_id 2], r_total_pages = Some 3\<rparr>
      else if p = Some (PInt 2)
      then Some \<lparr>r_animals = Some [record_of_id 3], r_total_pages = Some 3\<rparr>
      else if p = Some (PInt 3)
      then Some \<lparr>r_animals = Some [record_of_id 4, record_of_id 5], r_total_pages = Some 3\<rparr>
      else Some \<lparr>r_animals = Some [], r_total_pages = Some 3\<rparr>)"

definition uncounted_page :: "pyval option \<Rightarrow> response option" where
  "uncounted_page p =
     Some \<lparr>r_animals = Some (map (\<lambda>i. record_of_id (int i)) [1..<101]), r_total_pages = None\<rparr>"

definition dog_filters :: params where
  "dog_filters = [(''type'', PStr ''dog'')]"





definition drying_source :: "request list \<Rightarrow> request \<Rightarrow> response option" where
  "drying_source h r =
     (if pages_requested h = []
      then Some \<lparr>r_animals = Some [record_of_id 1, record_of_id 2], r_total_pages = Some 1\<rparr>
      else Some \<lparr>r_animals = Some [], r_total_pages = Some 1\<rparr>)"

definition unauthenticated :: env where
  "unauthenticated = (mock_env (paged three_pages))\<lparr>post_token := (\<lambda>h r. None)\<rparr>"

section \<open>Properties of the store\<close>

lemma and_then_Inr_iff:
  "and_then r k = Inr v \<longleftrightarrow> (\<exists>x. r = Inr x \<and> k x = Inr v)"
  by (cases r) (simp_all add: and_then_def)

lemma and_then_Inl_iff:
  "and_then r k = Inl e \<longleftrightarrow> r = Inl e \<or> (\<exists>x. r = Inr x \<and> k x = Inl e)"
  by (cases r) (simp_all add: and_then_def)

lemma update_animal_keeps:
  assumes "update_animal_from_data E a d = Inr a'"
  shows "petfinder_id a' = petfinder_id a" and "row_id a' = row_id a"
  using assms
  by (auto simp: update_animal_from_data_def Let_def split: sum.splits option.splits)

lemma create_animal_pid:
  assumes "create_animal_from_data E d = Inr a"
  shows "str_id (p_id d) = Inr (petfinder_id a)"
  using assms
  by (auto simp: create_animal_from_data_def and_then_Inr_iff new_animal_def)

lemma map_update_first:
  "find P xs = Some x \<Longrightarrow> f y = f x \<Longrightarrow> map f (update_first P y xs) = map f xs"
  by (induction xs) (auto split: if_splits)

lemma update_first_absent: "find P xs = None \<Longrightarrow> update_first P y xs = xs"
  by (induction xs) (auto split: if_splits)

lemma update_first_same: "find P xs = Some x \<Longrightarrow> update_first P x xs = xs"
  by (induction xs) (auto split: if_splits)

lemma length_update_first: "length (update_first P y xs) = length xs"
  by (induction xs) auto

lemma find_None_pid:
  "find (\<lambda>a. petfinder_id a = pid) rows = None \<longleftrightarrow> pid \<notin> set (map petfinder_id rows)"
  by (auto simp: find_None_iff)

text \<open>The three ways a call of save_animal ends.\<close>

lemma save_animal_failed:
  "save_animal_try E d w = Inl e \<Longrightarrow> save_animal E d w = (None, w)"
  by (simp add: save_animal_def)

lemma save_animal_updated:
  assumes "str_id (p_id d) = Inr pid"
    and "find (\<lambda>a. petfinder_id a = pid) (table w) = Some existing"
    and "update_animal_from_data E existing d = Inr updated"
  shows "save_animal E d w =
    (Some (updated\<lparr>last_updated := Some (utcnow_at E (clock_reads w))\<rparr>),
     w\<lparr>table := update_first (\<lambda>a. petfinder_id a = pid)
                  (updated\<lparr>last_updated := Some (utcnow_at E (clock_reads w))\<rparr>) (table w),
       clock_reads := Suc (clock_reads w)\<rparr>)"
  using assms by (simp add: save_animal_def save_animal_try_def and_then_def Let_def)

lemma save_animal_inserted:
  assumes "str_id (p_id d) = Inr pid"
    and "find (\<lambda>a. petfinder_id a = pid) (table w) = None"
    and "create_animal_from_data E d = Inr created"
  shows "save_animal E d w =
    (Some (created\<lparr>row_id := Some (next_row_id (table w)),
                   scraped_at := Some (utcnow_at E (clock_reads w)),
                   last_updated := Some (utcnow_at E (Suc (clock_reads w)))\<rparr>),
     w\<lparr>table := table w @ [created\<lparr>row_id := Some (next_row_id (table w)),
                   scraped_at := Some (utcnow_at E (clock_reads w)),
                   last_updated := Some (utcnow_at E (Suc (clock_reads w)))\<rparr>],
       clock_reads := Suc (Suc (clock_reads w))\<rparr>)"
  using assms by (simp add: save_animal_def save_animal_try_def and_then_def Let_def)

lemma save_animal_outcome:
  obtains (failed) e where "save_animal_try E d w = Inl e"
  | (updated) pid existing updated where "str_id (p_id d) = Inr pid"
      "find (\<lambda>a. petfinder_id a = pid) (table w) = Some existing"
      "update_animal_from_data E existing d = Inr updated"
  | (inserted) pid created where "str_id (p_id d) = Inr pid"
      "find (\<lambda>a. petfinder_id a = pid) (table w) = None"
      "create_animal_from_data E d = Inr created"
proof (cases "save_animal_try E d w")
  case (Inl e)
  then show ?thesis by (rule failed)
next
  case (Inr r)
  then obtain pid where pid: "str_id (p_id d) = Inr pid"
    by (auto simp: save_animal_try_def and_then_Inr_iff)
  show ?thesis
  proof (cases "find (\<lambda>a. petfinder_id a = pid) (table w)")
    case None
    with Inr pid obtain c where "create_animal_from_data E d = Inr c"
      by (auto simp: save_animal_try_def and_then_Inr_iff)
    with pid None show ?thesis by (rule inserted)
  next
    case (Some ex)
    with Inr pid obtain u where "update_animal_from_data E ex d = Inr u"
      by (auto simp: save_animal_try_def and_then_Inr_iff)
    with pid Some show ?thesis by (rule updated)
  qed
qed

lemma save_animal_known_id:
  assumes "external_id d = Inr pid" and "pid \<in> set (map petfinder_id (table w))"
  shows "map petfinder_id (table (snd (save_animal E d w))) = map petfinder_id (table w)"
    and "map row_id (table (snd (save_animal E d w))) = map row_id (table w)"
proof -
  have "map petfinder_id (table (snd (save_animal E d w))) = map petfinder_id (table w)
      \<and> map row_id (table (snd (save_animal E d w))) = map row_id (table w)"
  proof (cases rule: save_animal_outcome [of E d w])
    case (failed e)
    then show ?thesis by (simp add: save_animal_failed)
  next
    case (updated pid' existing updated)
    then show ?thesis
      by (simp add: save_animal_updated [OF updated]
            map_update_first [OF updated(2)] update_animal_keeps [OF updated(3)])
  next
    case (inserted pid' created)
    then show ?thesis
      using assms find_None_pid [of pid "table w"] by (simp add: external_id_def)
  qed
  then show "map petfinder_id (table (snd (save_animal E d w))) = map petfinder_id (table w)"
    and "map row_id (table (snd (save_animal E d w))) = map row_id (table w)"
    by simp_all
qed

lemma save_animal_new_id:
  assumes "external_id d = Inr pid" and "pid \<notin> set (map petfinder_id (table w))"
  shows "map petfinder_id (table (snd (save_animal E d w))) =
     (if accepted E d then map petfinder_id (table w) @ [pid] else map petfinder_id (table w))"
proof (cases rule: save_animal_outcome [of E d w])
  case (failed e)
  then have "create_animal_from_data E d = Inl e"
    using assms find_None_pid [of pid "table w"]
    by (auto simp: save_animal_try_def external_id_def and_then_def Let_def split: sum.splits)
  with failed show ?thesis by (simp add: save_animal_failed accepted_def)
next
  case (updated pid' existing updated)
  then show ?thesis
    using assms find_None_pid [of pid "table w"] by (simp add: external_id_def)
next
  case (inserted pid' created)
  then show ?thesis
    using assms create_animal_pid [OF inserted(3)]
    by (simp add: save_animal_inserted [OF inserted] external_id_def accepted_def)
qed




lemma accepted_has_id: "accepted E d \<Longrightarrow> \<exists>pid. external_id d = Inr pid"
  by (cases "create_animal_from_data E d")
     (auto simp: accepted_def external_id_def dest: create_animal_pid)

lemma feed_new_ids:
  assumes "list_all (accepted E) ds" and "distinct (map external_id ds)"
    and "set (map external_id ds) \<inter> Inr ` set (map petfinder_id (table w)) = {}"
  shows "map Inr (map petfinder_id (table (feed E ds w))) =
     map Inr (map petfinder_id (table w)) @ map external_id ds"
  using assms
proof (induction ds arbitrary: w)
  case Nil
  then show ?case by simp
next
  case (Cons d ds)
  from Cons.prems(1) obtain pid where pid: "external_id d = Inr pid"
    using accepted_has_id [of E d] by auto
  have new: "pid \<notin> set (map petfinder_id (table w))"
    using Cons.prems(3) pid by auto
  have step: "map petfinder_id (table (snd (save_animal E d w))) = map petfinder_id (table w) @ [pid]"
    using save_animal_new_id [OF pid new] Cons.prems(1) by simp
  have "set (map external_id ds) \<inter> Inr ` set (map petfinder_id (table (snd (save_animal E d w)))) = {}"
    using Cons.prems(2,3) pid by (auto simp: step)
  with Cons.IH [of "snd (save_animal E d w)"] Cons.prems(1,2)
  show ?case by (simp add: step pid)
qed

lemma feed_known_ids:
  assumes "set (map external_id ds) \<subseteq> Inr ` set (map petfinder_id (table w))"
  shows "map petfinder_id (table (feed E ds w)) = map petfinder_id (table w)
       \<and> map row_id (table (feed E ds w)) = map row_id (table w)"
  using assms
proof (induction ds arbitrary: w)
  case Nil
  then show ?case by simp
next
  case (Cons d ds)
  from Cons.prems obtain pid where pid: "external_id d = Inr pid"
    and known: "pid \<in> set (map petfinder_id (table w))" by auto
  note same = save_animal_known_id [OF pid known, of E]
  have "set (map external_id ds) \<subseteq> Inr ` set (map petfinder_id (table (snd (save_animal E d w))))"
    using Cons.prems by (simp only: same(1)) simp
  from Cons.IH [OF this] show ?case by (simp add: same)
qed

lemma update_animal_accepts:
  assumes "create_animal_from_data E d = Inr c"
  shows "\<exists>u. update_animal_from_data E a d = Inr u"
  using assms
  by (auto simp: create_animal_from_data_def update_animal_from_data_def and_then_Inr_iff Let_def
      split: sum.splits option.splits)

lemma save_animal_accepted:
  assumes "accepted E d"
  shows "\<exists>a. save_animal E d w = (Some a, snd (save_animal E d w))"
proof (cases rule: save_animal_outcome [of E d w])
  case (failed e)
  from assms obtain c where c: "create_animal_from_data E d = Inr c"
    by (cases "create_animal_from_data E d") (auto simp: accepted_def)
  from create_animal_pid [OF c] have pid: "str_id (p_id d) = Inr (petfinder_id c)" .
  show ?thesis
  proof (cases "find (\<lambda>a. petfinder_id a = petfinder_id c) (table w)")
    case None
    then show ?thesis by (simp add: save_animal_inserted [OF pid None c])
  next
    case (Some ex)
    from update_animal_accepts [OF c, of ex] obtain u where "update_animal_from_data E ex d = Inr u" ..
    then show ?thesis by (simp add: save_animal_updated [OF pid Some])
  qed
next
  case (updated pid existing updated)
  then show ?thesis by (simp add: save_animal_updated [OF updated])
next
  case (inserted pid created)
  then show ?thesis by (simp add: save_animal_inserted [OF inserted])
qed

lemma save_animal_frame:
  "sent (snd (save_animal E d w)) = sent w"
  "bearer (snd (save_animal E d w)) = bearer w"
  "api_key (snd (save_animal E d w)) = api_key w"
  "secret (snd (save_animal E d w)) = secret w"
  by (cases rule: save_animal_outcome [of E d w];
      simp add: save_animal_failed save_animal_updated save_animal_inserted)+

section \<open>Claims about the store\<close>




text \<open>
  C4. When the external id of the payload already has a row, \<open>save_animal\<close> rewrites
  that row and no other, and the rewritten row differs from the stored one in at most
  \<open>status\<close>, \<open>description\<close>, \<open>photos\<close>, \<open>status_changed_at\<close>, \<open>raw_data\<close> and
  \<open>last_updated\<close>: every other column (key, external id, name, species, breeds, colors,
  attribute and environment flags, location, \<open>published_at\<close>, \<open>scraped_at\<close>, videos, ...)
  keeps the value of its first ingestion.
\<close>

theorem save_animal_update_frame:
  assumes "external_id d = Inr pid"
    and "find (\<lambda>a. petfinder_id a = pid) (table w) = Some existing"
  shows "\<exists>row. table (snd (save_animal E d w))
                  = update_first (\<lambda>a. petfinder_id a = pid) row (table w)
     \<and> row = existing\<lparr>status := status row, description := description row,
                       photos := photos row, status_changed_at := status_changed_at row,
                       last_updated := last_updated row, raw_data := raw_data row\<rparr>"
proof (cases rule: save_animal_outcome [of E d w])
  case (failed e)
  have "table w = update_first (\<lambda>a. petfinder_id a = pid) existing (table w)"
    using assms(2) by (simp add: update_first_same)
  then show ?thesis by (intro exI [of _ existing]) (simp add: save_animal_failed [OF failed])
next
  case (updated pid' existing' updated)
  with assms have same: "pid' = pid" "existing' = existing" by (simp_all add: external_id_def)
  let ?row = "updated\<lparr>last_updated := Some (utcnow_at E (clock_reads w))\<rparr>"
  have "?row = existing\<lparr>status := status ?row, description := description ?row,
                       photos := photos ?row, status_changed_at := status_changed_at ?row,
                       last_updated := last_updated ?row, raw_data := raw_data ?row\<rparr>"
    using updated(3) unfolding same
    by (auto simp: update_animal_from_data_def Let_def split: sum.splits option.splits)
  then show ?thesis
    using updated unfolding same
    by (intro exI [of _ ?row]) (simp add: save_animal_updated [OF updated [unfolded same]])
next
  case (inserted pid' created)
  with assms show ?thesis by (simp add: external_id_def)
qed

theorem save_animal_update_frame_witness:
  "external_id adopted_record = Inr ''7''
   \<and> find (\<lambda>a. petfinder_id a = ''7'') (table (feed offline two_records new_world))
       = Some (hd (table (feed offline two_records new_world)))
   \<and> (\<exists>row. table (snd (save_animal offline adopted_record (feed offline two_records new_world)))
               = update_first (\<lambda>a. petfinder_id a = ''7'') row
                   (table (feed offline two_records new_world))
        \<and> name row = Some ''Rex'' \<and> status row = Some ''adopted'')"
proof -
  have h1: "external_id adopted_record = Inr ''7''"
    by code_simp
  have h2: "find (\<lambda>a. petfinder_id a = ''7'') (table (feed offline two_records new_world))
       = Some (hd (table (feed offline two_records new_world)))"
    by code_simp
  have h3: "name (hd (table (feed offline two_records new_world))) = Some ''Rex''"
    by code_simp
  have h4: "status (hd (table (snd (save_animal offline adopted_record
       (feed offline two_records new_world))))) = Some ''adopted''"
    by code_simp
  from save_animal_update_frame [OF h1 h2, of offline]
  obtain row where row: "table (snd (save_animal offline adopted_record (feed offline two_records new_world)))
               = update_first (\<lambda>a. petfinder_id a = ''7'') row
                   (table (feed offline two_records new_world))"
    and frame: "row = (hd (table (feed offline two_records new_world)))\<lparr>status := status row,
       description := description row, photos := photos row,
       status_changed_at := status_changed_at row, last_updated := last_updated row,
       raw_data := raw_data row\<rparr>"
    by blast
  from frame have "name row = name (hd (table (feed offline two_records new_world)))"
    by (metis animal.select_convs(4) animal.surjective animal.update_convs(17,26,27,34,37,38))
  with h3 have n: "name row = Some ''Rex''" by simp
  have "table (feed offline two_records new_world) \<noteq> []"
    and "petfinder_id (hd (table (feed offline two_records new_world))) = ''7''"
    by code_simp+
  then have "hd (update_first (\<lambda>a. petfinder_id a = ''7'') row
                   (table (feed offline two_records new_world))) = row"
    by (cases "table (feed offline two_records new_world)") auto
  with row h4 have s: "status row = Some ''adopted''" by simp
  from h1 h2 row n s show ?thesis by blast
qed



section \<open>Properties of the API client\<close>

lemma pages_requested_append:
  "pages_requested (xs @ ys) = pages_requested xs @ pages_requested ys"
  by (induction xs) (simp_all split: option.splits)

lemma token_requests_append:
  "token_requests (xs @ ys) = token_requests xs + token_requests ys"
  by (induction xs rule: token_requests.induct) simp_all

lemma authenticate_sent:
  "sent (snd (authenticate E w)) = sent w @ [PostToken (api_key w) (secret w)]"
  by (simp add: authenticate_def Let_def split: option.splits)

lemma authenticate_frame:
  "table (snd (authenticate E w)) = table w"
  "api_key (snd (authenticate E w)) = api_key w"
  "secret (snd (authenticate E w)) = secret w"
  by (simp_all add: authenticate_def Let_def split: option.splits)

lemma authenticate_granted:
  assumes "post_token E (sent w) (PostToken (api_key w) (secret w)) = Some td"
  shows "authenticate E w =
    (True, w\<lparr>sent := sent w @ [PostToken (api_key w) (secret w)],
            bearer := Some (access_token td,
                            now_at E (clock_reads w) + 1000000 * (expires_in td - 300)),
            clock_reads := Suc (clock_reads w)\<rparr>)"
  using assms by (simp add: authenticate_def Let_def)

lemma authenticate_refused:
  assumes "post_token E (sent w) (PostToken (api_key w) (secret w)) = None"
  shows "authenticate E w = (False, w\<lparr>sent := sent w @ [PostToken (api_key w) (secret w)]\<rparr>)"
  using assms by (simp add: authenticate_def Let_def)

lemma ensure_token_valid_frame:
  "table (ensure_token_valid E w) = table w"
  "api_key (ensure_token_valid E w) = api_key w"
  "secret (ensure_token_valid E w) = secret w"
  "pages_requested (sent (ensure_token_valid E w)) = pages_requested (sent w)"
  by (simp_all add: ensure_token_valid_def Let_def authenticate_frame authenticate_sent
        pages_requested_append split: option.splits prod.splits)

lemma ensure_token_valid_sent:
  assumes "bearer w = Some (tok, expires)" and "tok \<noteq> []"
  shows "sent (ensure_token_valid E w) =
    (if now_at E (clock_reads w) \<ge> expires
     then sent w @ [PostToken (api_key w) (secret w)] else sent w)"
  using assms by (simp add: ensure_token_valid_def Let_def authenticate_sent)

lemma page_params_page: "map_of (page_params filters page) ''page'' = Some (PInt (int page))"
  by (simp add: page_params_def Let_def update_conv')

lemma make_request_frame:
  "table (snd (make_request E endpoint ps w)) = table w"
  "api_key (snd (make_request E endpoint ps w)) = api_key w"
  "secret (snd (make_request E endpoint ps w)) = secret w"
  by (simp_all add: make_request_def Let_def ensure_token_valid_frame)

lemma make_request_pages:
  "pages_requested (sent (snd (make_request E endpoint (page_params filters page) w))) =
     pages_requested (sent w) @ [PInt (int page)]"
  by (simp add: make_request_def Let_def pages_requested_append ensure_token_valid_frame
        page_params_page)

lemma make_request_paged:
  assumes "get_json E = paged source"
  shows "fst (make_request E endpoint (page_params filters page) w) = source (Some (PInt (int page)))"
  using assms by (simp add: make_request_def Let_def paged_def page_params_page)

text \<open>One turn of the loop, by the three ways it can go.\<close>

lemma get_animals_loop_step:
  "get_animals_loop E filters page animals w =
     (case make_request E ''animals'' (page_params filters page) w of
        (reply, w1) \<Rightarrow>
          if spec_continues reply page
          then get_animals_loop E filters (page + 1) (animals @ batch_of reply) w1
          else Some (animals @ batch_of reply, w1))"
  by (subst get_animals_loop.simps)
     (simp add: spec_continues_def batch_of_def split: prod.splits option.splits)

lemma get_animals_loop_more:
  assumes "make_request E ''animals'' (page_params filters page) w = (Some d, w1)"
    and "r_animals d = Some batch" and "batch \<noteq> []" and "int page < total_pages d"
  shows "get_animals_loop E filters page animals w =
     get_animals_loop E filters (page + 1) (animals @ batch) w1"
  using assms by (subst get_animals_loop.simps) simp

lemma get_animals_loop_last:
  assumes "make_request E ''animals'' (page_params filters page) w = (Some d, w1)"
    and "r_animals d = Some batch" and "total_pages d \<le> int page"
  shows "get_animals_loop E filters page animals w = Some (animals @ batch, w1)"
  using assms by (subst get_animals_loop.simps) simp

text \<open>A run of \<open>get_animals\<close> against a source of three non-empty pages.\<close>

lemma get_animals_three_page_run:
  assumes a: "get_json E = paged source
     \<and> source (Some (PInt 1)) = Some \<lparr>r_animals = Some b1, r_total_pages = Some 3\<rparr>
     \<and> source (Some (PInt 2)) = Some \<lparr>r_animals = Some b2, r_total_pages = Some 3\<rparr>
     \<and> source (Some (PInt 3)) = Some \<lparr>r_animals = Some b3, r_total_pages = Some 3\<rparr>
     \<and> b1 \<noteq> [] \<and> b2 \<noteq> [] \<and> b3 \<noteq> []"
  shows "\<exists>w'. get_animals E filters w = Some (b1 @ b2 @ b3, w')
          \<and> pages_requested (sent w') = pages_requested (sent w) @ [PInt 1, PInt 2, PInt 3]
          \<and> table w' = table w"
proof -
  from a have paged: "get_json E = paged source" by simp
  define w1 where "w1 = snd (make_request E ''animals'' (page_params filters 1) w)"
  define w2 where "w2 = snd (make_request E ''animals'' (page_params filters 2) w1)"
  define w3 where "w3 = snd (make_request E ''animals'' (page_params filters 3) w2)"
  have r1: "make_request E ''animals'' (page_params filters 1) w =
      (Some \<lparr>r_animals = Some b1, r_total_pages = Some 3\<rparr>, w1)"
    using make_request_paged [OF paged, of "''animals''" filters 1 w] a
    by (simp add: w1_def prod_eq_iff)
  have r2: "make_request E ''animals'' (page_params filters 2) w1 =
      (Some \<lparr>r_animals = Some b2, r_total_pages = Some 3\<rparr>, w2)"
    using make_request_paged [OF paged, of "''animals''" filters 2 w1] a
    by (simp add: w2_def prod_eq_iff)
  have r3: "make_request E ''animals'' (page_params filters 3) w2 =
      (Some \<lparr>r_animals = Some b3, r_total_pages = Some 3\<rparr>, w3)"
    using make_request_paged [OF paged, of "''animals''" filters 3 w2] a
    by (simp add: w3_def prod_eq_iff)
  have e1: "get_animals_loop E filters 1 [] w = get_animals_loop E filters 2 b1 w1"
    using get_animals_loop_more [OF r1, of b1 "[]"] a
    by (simp add: total_pages_def del: One_nat_def)
  have e2: "get_animals_loop E filters 2 b1 w1 = get_animals_loop E filters 3 (b1 @ b2) w2"
    using get_animals_loop_more [OF r2, of b2 b1] a by (simp add: total_pages_def)
  have e3: "get_animals_loop E filters 3 (b1 @ b2) w2 = Some (b1 @ b2 @ b3, w3)"
    using get_animals_loop_last [OF r3, of b3 "b1 @ b2"] by (simp add: total_pages_def)
  have res: "get_animals E filters w = Some (b1 @ b2 @ b3, w3)"
    unfolding get_animals_def by (simp only: e1 e2 e3)
  have pages: "pages_requested (sent w3) = pages_requested (sent w) @ [PInt 1, PInt 2, PInt 3]"
    using make_request_pages [of E "''animals''" filters 1 w]
      make_request_pages [of E "''animals''" filters 2 w1]
      make_request_pages [of E "''animals''" filters 3 w2]
    by (simp add: w1_def w2_def w3_def)
  have "table w3 = table w"
    by (simp add: w1_def w2_def w3_def make_request_frame)
  with res pages show ?thesis by blast
qed

section \<open>Claims about the API client\<close>



text \<open>
  C7. When the reply to the request for a page carries no total page count, the count is
  taken to be 1 and the loop returns there and then, with the batch of that reply added.
  For the first reply this means that \<open>get_animals\<close> returns its batch after this one
  request, page 1 being the only page asked for. It holds for a batch of any length, a
  short one and a full one alike, so the loop cannot go on for want of the count. When
  the reply carries a count and a non-empty batch, the loop stops exactly when the page
  number has reached the count.
\<close>

theorem get_animals_missing_total:
  "(make_request E ''animals'' (page_params filters page) w = (Some d, w1)
      \<and> r_total_pages d = None \<and> 1 \<le> page
    \<longrightarrow> total_pages d = 1
        \<and> get_animals_loop E filters page animals w = Some (animals @ batch_of (Some d), w1))
   \<and> (make_request E ''animals'' (page_params filters 1) w = (Some d, w1)
      \<and> r_total_pages d = None
    \<longrightarrow> get_animals E filters w = Some (batch_of (Some d), w1)
        \<and> pages_requested (sent w1) = pages_requested (sent w) @ [PInt 1])
   \<and> (make_request E ''animals'' (page_params filters page) w = (Some d, w1)
      \<and> r_total_pages d = Some t \<and> batch_of (Some d) \<noteq> []
    \<longrightarrow> get_animals_loop E filters page animals w =
         (if int page \<ge> t then Some (animals @ batch_of (Some d), w1)
          else get_animals_loop E filters (page + 1) (animals @ batch_of (Some d)) w1))"
proof (intro conjI impI)
  assume a: "make_request E ''animals'' (page_params filters page) w = (Some d, w1)
      \<and> r_total_pages d = None \<and> 1 \<le> page"
  then show "total_pages d = 1" by (simp add: total_pages_def)
  from a show "get_animals_loop E filters page animals w
      = Some (animals @ batch_of (Some d), w1)"
    by (subst get_animals_loop_step)
       (auto simp: spec_continues_def total_pages_def)
next
  assume a: "make_request E ''animals'' (page_params filters 1) w = (Some d, w1)
      \<and> r_total_pages d = None"
  then show "get_animals E filters w = Some (batch_of (Some d), w1)"
    unfolding get_animals_def
    by (subst get_animals_loop_step)
       (auto simp: spec_continues_def total_pages_def)
  from a make_request_pages [of E "''animals''" filters 1 w]
  show "pages_requested (sent w1) = pages_requested (sent w) @ [PInt 1]" by simp
next
  assume "make_request E ''animals'' (page_params filters page) w = (Some d, w1)
      \<and> r_total_pages d = Some t \<and> batch_of (Some d) \<noteq> []"
  then show "get_animals_loop E filters page animals w =
         (if int page \<ge> t then Some (animals @ batch_of (Some d), w1)
          else get_animals_loop E filters (page + 1) (animals @ batch_of (Some d)) w1)"
    by (subst get_animals_loop_step)
       (auto simp: spec_continues_def total_pages_def)
qed

theorem get_animals_missing_total_witness:
  "(make_request (mock_env (paged uncounted_page)) ''animals'' (page_params dog_filters 1) new_world
      = (Some \<lparr>r_animals = Some (map (\<lambda>i. record_of_id (int i)) [1..<101]),
                r_total_pages = None\<rparr>,
         snd (make_request (mock_env (paged uncounted_page)) ''animals''
                (page_params dog_filters 1) new_world))
    \<and> get_animals (mock_env (paged uncounted_page)) dog_filters new_world
      = Some (map (\<lambda>i. record_of_id (int i)) [1..<101],
              snd (make_request (mock_env (paged uncounted_page)) ''animals''
                     (page_params dog_filters 1) new_world))
    \<and> length (map (\<lambda>i. record_of_id (int i)) [1..<101]) = 100)
   \<and> (make_request (mock_env (paged three_pages)) ''animals'' (page_params dog_filters 1) new_world
      = (Some \<lparr>r_animals = Some [record_of_id 1, record_of_id 2], r_total_pages = Some 3\<rparr>,
         snd (make_request (mock_env (paged three_pages)) ''animals''
                (page_params dog_filters 1) new_world))
    \<and> get_animals_loop (mock_env (paged three_pages)) dog_filters 1 [] new_world
      = get_animals_loop (mock_env (paged three_pages)) dog_filters (1 + 1)
          ([] @ [record_of_id 1, record_of_id 2])
          (snd (make_request (mock_env (paged three_pages)) ''animals''
                  (page_params dog_filters 1) new_world)))"
proof -
  let ?E1 = "mock_env (paged uncounted_page)" and ?E3 = "mock_env (paged three_pages)"
  let ?d1 = "\<lparr>r_animals = Some (map (\<lambda>i. record_of_id (int i)) [1..<101]), r_total_pages = None\<rparr>"
  let ?d3 = "\<lparr>r_animals = Some [record_of_id 1, record_of_id 2], r_total_pages = Some 3\<rparr>"
  let ?w1 = "snd (make_request ?E1 ''animals'' (page_params dog_filters 1) new_world)"
  let ?w3 = "snd (make_request ?E3 ''animals'' (page_params dog_filters 1) new_world)"
  have "fst (make_request ?E1 ''animals'' (page_params dog_filters 1) new_world) = Some ?d1"
    by (subst make_request_paged [of _ uncounted_page])
       (simp_all add: mock_env_def uncounted_page_def)
  then have h1: "make_request ?E1 ''animals'' (page_params dog_filters 1) new_world = (Some ?d1, ?w1)"
    by (simp add: prod_eq_iff)
  have "fst (make_request ?E3 ''animals'' (page_params dog_filters 1) new_world) = Some ?d3"
    by (subst make_request_paged [of _ three_pages])
       (simp_all add: mock_env_def three_pages_def)
  then have h3: "make_request ?E3 ''animals'' (page_params dog_filters 1) new_world = (Some ?d3, ?w3)"
    by (simp add: prod_eq_iff)
  have len: "length (map (\<lambda>i. record_of_id (int i)) [1..<101]) = 100" by simp
  from get_animals_missing_total [of ?E1 dog_filters 1 new_world ?d1 ?w1] h1
  have c1: "get_animals ?E1 dog_filters new_world = Some (batch_of (Some ?d1), ?w1)" by simp
  from get_animals_missing_total [of ?E3 dog_filters 1 new_world ?d3 ?w3 _ 3] h3
  have c3: "get_animals_loop ?E3 dog_filters 1 [] new_world
      = get_animals_loop ?E3 dog_filters (1 + 1) ([] @ batch_of (Some ?d3)) ?w3"
    by (simp add: batch_of_def)
  from h1 c1 len h3 c3 show ?thesis by (simp add: batch_of_def)
qed

text \<open>
  C8 (as amended). A successful \<open>authenticate\<close> stores as expiry the instant of issue
  plus the reported lifetime less 300 seconds. For a non-empty token issued with
  \<open>expires_in = 600\<close>, \<open>_ensure_token_valid\<close> sends a new token request when the clock
  reads 300 seconds or more after the issue, and sends nothing when it reads less than
  300 seconds after the issue. Instants are in microseconds.
\<close>

theorem token_refresh_margin:
  "post_token E (sent w) (PostToken (api_key w) (secret w)) = Some td
   \<longrightarrow> fst (authenticate E w) = True
     \<and> token (snd (authenticate E w)) = Some (access_token td)
     \<and> token_expires (snd (authenticate E w))
         = Some (now_at E (clock_reads w) + 1000000 * (expires_in td - 300))
     \<and> (expires_in td = 600 \<and> access_token td \<noteq> []
          \<and> bearer w2 = bearer (snd (authenticate E w))
        \<longrightarrow> sent (ensure_token_valid E w2) =
             (if now_at E (clock_reads w2) \<ge> now_at E (clock_reads w) + 1000000 * 300
              then sent w2 @ [PostToken (api_key w2) (secret w2)]
              else sent w2))"
proof (intro impI conjI)
  assume granted: "post_token E (sent w) (PostToken (api_key w) (secret w)) = Some td"
  note auth = authenticate_granted [OF granted]
  show "fst (authenticate E w) = True"
    and "token (snd (authenticate E w)) = Some (access_token td)"
    and "token_expires (snd (authenticate E w))
         = Some (now_at E (clock_reads w) + 1000000 * (expires_in td - 300))"
    by (simp_all add: auth token_def token_expires_def)
  assume "expires_in td = 600 \<and> access_token td \<noteq> []
          \<and> bearer w2 = bearer (snd (authenticate E w))"
  then have "bearer w2 = Some (access_token td, now_at E (clock_reads w) + 1000000 * 300)"
    and "access_token td \<noteq> []"
    by (simp_all add: auth)
  from ensure_token_valid_sent [OF this]
  show "sent (ensure_token_valid E w2) =
             (if now_at E (clock_reads w2) \<ge> now_at E (clock_reads w) + 1000000 * 300
              then sent w2 @ [PostToken (api_key w2) (secret w2)]
              else sent w2)" .
qed

theorem token_refresh_margin_witness:
  "post_token (short_lived 299999999) (sent new_world)
       (PostToken (api_key new_world) (secret new_world))
     = Some \<lparr>access_token = ''mock-token'', expires_in = 600\<rparr>
   \<and> token_expires (snd (authenticate (short_lived 299999999) new_world)) = Some 300000000
   \<and> sent (ensure_token_valid (short_lived 299999999)
             (snd (authenticate (short_lived 299999999) new_world)))
       = sent (snd (authenticate (short_lived 299999999) new_world))"
proof -
  let ?E = "short_lived 299999999"
  let ?td = "\<lparr>access_token = ''mock-token'', expires_in = 600\<rparr>"
  have h: "post_token ?E (sent new_world) (PostToken (api_key new_world) (secret new_world))
      = Some ?td"
    by (simp add: short_lived_def)
  have clock: "now_at ?E (clock_reads new_world) = 0"
    "now_at ?E (clock_reads (snd (authenticate ?E new_world))) = 299999999"
    by (simp_all add: authenticate_granted [OF h]) (simp_all add: short_lived_def new_world_def)
  from token_refresh_margin [of ?E new_world ?td "snd (authenticate ?E new_world)"] h clock
  show ?thesis by simp
qed

text \<open>
  The claim as stated puts the boundary at 301 seconds. A request made exactly 300
  seconds after the issue is made before 301 seconds after it, and it does send a second
  token request.
\<close>

theorem token_refreshed_at_300_seconds:
  "now_at (short_lived 300000000) (clock_reads (snd (authenticate (short_lived 300000000) new_world)))
     - now_at (short_lived 300000000) (clock_reads new_world) < 1000000 * 301
   \<and> token_requests (sent (snd (authenticate (short_lived 300000000) new_world))) = 1
   \<and> token_requests (sent (ensure_token_valid (short_lived 300000000)
        (snd (authenticate (short_lived 300000000) new_world)))) = 2
   \<and> token_requests (sent (snd (make_request (short_lived 300000000) ''animals'' dog_filters
        (snd (authenticate (short_lived 300000000) new_world))))) = 2"
  by code_simp

section \<open>Properties of the collector\<close>

lemma feed_frame:
  "sent (feed E ds w) = sent w"
  "bearer (feed E ds w) = bearer w"
  by (induction ds arbitrary: w) (simp_all add: save_animal_frame)

lemma save_each_uncapped:
  assumes "\<And>n. \<not> cap_reached max_animals n"
  shows "\<exists>n'. save_each E max_animals ds n w = (Exhausted n', feed E ds w)"
proof (induction ds arbitrary: n w)
  case Nil
  then show ?case by simp
next
  case (Cons d ds)
  show ?case
  proof (cases "fst (save_animal E d w)")
    case None
    with Cons [of n "snd (save_animal E d w)"] show ?thesis
      by (cases "save_animal E d w") simp
  next
    case (Some a)
    with Cons [of "n + 1" "snd (save_animal E d w)"] assms show ?thesis
      by (cases "save_animal E d w") simp
  qed
qed

lemma save_each_same_cap:
  assumes "\<And>n. cap_reached m n = cap_reached m' n"
  shows "save_each E m ds n w = save_each E m' ds n w"
  by (induction ds arbitrary: n w) (simp_all add: assms split: prod.splits option.splits)

lemma save_each_reaches_cap:
  assumes "list_all (accepted E) ds" and "ds \<noteq> []" and "m = n + int (length ds)" and "m \<noteq> 0"
  shows "save_each E (Some m) (ds @ rest) n w = (Return m, feed E ds w)"
  using assms
proof (induction ds arbitrary: n w)
  case Nil
  then show ?case by simp
next
  case (Cons d ds)
  from Cons.prems(1) save_animal_accepted [of E d w]
  obtain a where saved: "save_animal E d w = (Some a, snd (save_animal E d w))" by auto
  show ?case
  proof (cases "ds = []")
    case True
    with Cons.prems saved show ?thesis
      by (cases "save_animal E d w") (simp add: cap_reached_def)
  next
    case False
    with Cons.prems have "\<not> cap_reached (Some m) (n + 1)"
      by (cases ds) (simp_all add: cap_reached_def)
    moreover have "save_each E (Some m) (ds @ rest) (n + 1) (snd (save_animal E d w))
        = (Return m, feed E ds (snd (save_animal E d w)))"
      using Cons.prems False by (intro Cons.IH) simp_all
    ultimately show ?thesis
      using saved by (cases "save_animal E d w") simp
  qed
qed

lemma save_each_below_cap:
  assumes "list_all (accepted E) ds" and "n + int (length ds) < m"
  shows "save_each E (Some m) ds n w = (Exhausted (n + int (length ds)), feed E ds w)"
  using assms
proof (induction ds arbitrary: n w)
  case Nil
  then show ?case by simp
next
  case (Cons d ds)
  from Cons.prems(1) save_animal_accepted [of E d w]
  obtain a where saved: "save_animal E d w = (Some a, snd (save_animal E d w))" by auto
  from Cons.prems have "\<not> cap_reached (Some m) (n + 1)"
    by (simp add: cap_reached_def)
  moreover have "save_each E (Some m) ds (n + 1) (snd (save_animal E d w))
      = (Exhausted (n + 1 + int (length ds)), feed E ds (snd (save_animal E d w)))"
    using Cons.prems by (intro Cons.IH) simp_all
  ultimately show ?case
    using saved by (cases "save_animal E d w") (simp add: add.assoc)
qed

text \<open>One turn of the collector's loop, once the listing has come back non-empty.\<close>

lemma collect_loop_turn:
  assumes "get_animals E
      (AList.update ''limit'' (PInt 100) (AList.update ''page'' (PInt (int page)) filters)) w
        = Some (batch, w1)"
    and "batch \<noteq> []"
  shows "collect_loop E filters m page n w =
     (case save_each E m batch n w1 of
        (Return k, w2) \<Rightarrow> Some (k, w2)
      | (Exhausted k, w2) \<Rightarrow> collect_loop E filters m (page + 1) k w2)"
  by (subst collect_loop.simps) (simp add: assms)

lemma collect_loop_same_cap_Some:
  assumes "collect_loop E filters m page n w = Some y"
  shows "\<forall>m'. (\<forall>k. cap_reached m k = cap_reached m' k)
            \<longrightarrow> collect_loop E filters m' page n w = Some y"
  using assms
proof (rule collect_loop.raw_induct [rotated, where P = "\<lambda>E filters m page n w y.
    \<forall>m'. (\<forall>k. cap_reached m k = cap_reached m' k)
            \<longrightarrow> collect_loop E filters m' page n w = Some y"])
  fix loop E filters m page n w y
  assume IH: "\<And>E filters m page n w y. loop E filters m page n w = Some y \<Longrightarrow>
      \<forall>m'. (\<forall>k. cap_reached m k = cap_reached m' k)
            \<longrightarrow> collect_loop E filters m' page n w = Some y"
    and body: "Option.bind
       (get_animals E
          (AList.update ''limit'' (PInt 100) (AList.update ''page'' (PInt (int page)) filters)) w)
       (\<lambda>(batch, w1).
           if batch = [] then Some (n, w1)
           else case save_each E m batch n w1 of
                  (Return k, w2) \<Rightarrow> Some (k, w2)
                | (Exhausted k, w2) \<Rightarrow> loop E filters m (page + 1) k w2) = Some y"
  show "\<forall>m'. (\<forall>k. cap_reached m k = cap_reached m' k)
            \<longrightarrow> collect_loop E filters m' page n w = Some y"
  proof (intro allI impI)
    fix m'
    assume caps: "\<forall>k. cap_reached m k = cap_reached m' k"
    then have same: "\<And>ds k v. save_each E m' ds k v = save_each E m ds k v"
      by (intro save_each_same_cap) simp
    from body obtain batch w1 where fetched: "get_animals E
          (AList.update ''limit'' (PInt 100) (AList.update ''page'' (PInt (int page)) filters)) w
        = Some (batch, w1)"
      and rest: "(if batch = [] then Some (n, w1)
           else case save_each E m batch n w1 of
                  (Return k, w2) \<Rightarrow> Some (k, w2)
                | (Exhausted k, w2) \<Rightarrow> loop E filters m (page + 1) k w2) = Some y"
      by (auto simp: bind_eq_Some_conv)
    show "collect_loop E filters m' page n w = Some y"
    proof (cases "batch = []")
      case True
      with rest fetched show ?thesis by (subst collect_loop.simps) simp
    next
      case False
      obtain ex w2 where saved: "save_each E m batch n w1 = (ex, w2)" by (cases "save_each E m batch n w1")
      show ?thesis
      proof (cases ex)
        case (Return k)
        with rest fetched False saved show ?thesis
          by (subst collect_loop.simps) (simp add: same)
      next
        case (Exhausted k)
        with rest False saved have "loop E filters m (page + 1) k w2 = Some y" by simp
        from IH [OF this] caps have "collect_loop E filters m' (page + 1) k w2 = Some y" by blast
        with fetched False saved Exhausted show ?thesis
          by (subst collect_loop.simps) (simp add: same)
      qed
    qed
  qed
qed

lemma collect_loop_same_cap:
  assumes "\<And>k. cap_reached m k = cap_reached m' k"
  shows "collect_loop E filters m page n w = collect_loop E filters m' page n w"
proof (cases "collect_loop E filters m page n w")
  case (Some y)
  with collect_loop_same_cap_Some [OF Some] assms show ?thesis by simp
next
  case None
  show ?thesis
  proof (cases "collect_loop E filters m' page n w")
    case (Some y)
    with collect_loop_same_cap_Some [OF Some] assms None show ?thesis by simp
  qed (simp add: None)
qed

text \<open>
  \<open>get_animals\<close> starts over from page 1 at every call. Against a source that answers
  by page number and has a non-empty first page, no call returns an empty list, so an
  uncapped collection never finds the source exhausted.
\<close>

lemma get_animals_loop_extends:
  assumes "get_animals_loop E filters page animals w = Some r"
  shows "\<exists>more. fst r = animals @ more"
  using assms
proof (rule get_animals_loop.raw_induct [rotated, where P = "\<lambda>E filters page animals w r.
    \<exists>more. fst r = animals @ more"])
  fix loop E filters page animals w r
  assume IH: "\<And>E filters page animals w r. loop E filters page animals w = Some r \<Longrightarrow>
      \<exists>more. fst r = animals @ more"
    and body: "(case make_request E ''animals'' (page_params filters page) w of
        (None, w1) \<Rightarrow> Some (animals, w1)
      | (Some d, w1) \<Rightarrow>
          (case r_animals d of
             None \<Rightarrow> Some (animals, w1)
           | Some batch \<Rightarrow>
               if batch = [] then Some (animals, w1)
               else if int page \<ge> total_pages d then Some (animals @ batch, w1)
               else loop E filters (page + 1) (animals @ batch) w1)) = Some r"
  from body show "\<exists>more. fst r = animals @ more"
    by (auto split: prod.splits option.splits if_splits dest!: IH)
qed

lemma get_animals_not_empty:
  assumes "get_json E = paged source"
    and "source (Some (PInt 1)) = Some d" and "r_animals d = Some batch" and "batch \<noteq> []"
    and "get_animals E filters w = Some (animals, w')"
  shows "animals \<noteq> []"
proof -
  obtain w1 where req: "make_request E ''animals'' (page_params filters 1) w = (Some d, w1)"
    using make_request_paged [OF assms(1), of "''animals''" filters 1 w] assms(2)
    by (cases "make_request E ''animals'' (page_params filters 1) w") simp
  show ?thesis
  proof (cases "int 1 < total_pages d")
    case True
    from assms(5) have "get_animals_loop E filters (1 + 1) ([] @ batch) w1 = Some (animals, w')"
      unfolding get_animals_def
      using get_animals_loop_more [OF req assms(3,4) True, of "[]"] by simp
    from get_animals_loop_extends [OF this] assms(4) show ?thesis by auto
  next
    case False
    then have "get_animals_loop E filters 1 [] w = Some ([] @ batch, w1)"
      by (intro get_animals_loop_last [OF req assms(3)]) simp
    with assms(4,5) show ?thesis by (simp add: get_animals_def)
  qed
qed

lemma collect_loop_never_returns:
  assumes "collect_loop E filters m page n w = Some y"
  shows "\<not> (get_json E = paged source \<and> source (Some (PInt 1)) = Some d
            \<and> r_animals d = Some batch \<and> batch \<noteq> [] \<and> (\<forall>k. \<not> cap_reached m k))"
  using assms
proof (rule collect_loop.raw_induct [rotated, where P = "\<lambda>E filters m page n w y.
    \<not> (get_json E = paged source \<and> source (Some (PInt 1)) = Some d
            \<and> r_animals d = Some batch \<and> batch \<noteq> [] \<and> (\<forall>k. \<not> cap_reached m k))"])
  fix loop E filters m page n w y
  assume IH: "\<And>E filters m page n w y. loop E filters m page n w = Some y \<Longrightarrow>
      \<not> (get_json E = paged source \<and> source (Some (PInt 1)) = Some d
            \<and> r_animals d = Some batch \<and> batch \<noteq> [] \<and> (\<forall>k. \<not> cap_reached m k))"
    and body: "Option.bind
       (get_animals E
          (AList.update ''limit'' (PInt 100) (AList.update ''page'' (PInt (int page)) filters)) w)
       (\<lambda>(batch, w1).
           if batch = [] then Some (n, w1)
           else case save_each E m batch n w1 of
                  (Return k, w2) \<Rightarrow> Some (k, w2)
                | (Exhausted k, w2) \<Rightarrow> loop E filters m (page + 1) k w2) = Some y"
  show "\<not> (get_json E = paged source \<and> source (Some (PInt 1)) = Some d
            \<and> r_animals d = Some batch \<and> batch \<noteq> [] \<and> (\<forall>k. \<not> cap_reached m k))"
  proof
    assume a: "get_json E = paged source \<and> source (Some (PInt 1)) = Some d
            \<and> r_animals d = Some batch \<and> batch \<noteq> [] \<and> (\<forall>k. \<not> cap_reached m k)"
    from body obtain fetched w1 where got: "get_animals E
          (AList.update ''limit'' (PInt 100) (AList.update ''page'' (PInt (int page)) filters)) w
        = Some (fetched, w1)"
      and rest: "(if fetched = [] then Some (n, w1)
           else case save_each E m fetched n w1 of
                  (Return k, w2) \<Rightarrow> Some (k, w2)
                | (Exhausted k, w2) \<Rightarrow> loop E filters m (page + 1) k w2) = Some y"
      by (auto simp: bind_eq_Some_conv)
    from a got have ne: "fetched \<noteq> []"
      by (intro get_animals_not_empty [of E source d batch _ w fetched w1]) simp_all
    from a save_each_uncapped [of m E fetched n w1]
    obtain k where "save_each E m fetched n w1 = (Exhausted k, feed E fetched w1)" by auto
    with rest ne have "loop E filters m (page + 1) k (feed E fetched w1) = Some y" by simp
    from IH [OF this] a show False by blast
  qed
qed

lemma collect_animals_never_returns:
  assumes "get_json E = paged source" and "source (Some (PInt 1)) = Some d"
    and "r_animals d = Some batch" and "batch \<noteq> []"
    and "post_token E (sent w) (PostToken (api_key w) (secret w)) = Some td"
  shows "collect_animals E filters None w = None"
proof -
  have "collect_loop E filters None 1 0 w' = None" for w'
  proof (cases "collect_loop E filters None 1 0 w'")
    case (Some y)
    from collect_loop_never_returns [OF Some, of source d batch] assms(1-4)
    show ?thesis by (simp add: cap_reached_def)
  qed simp
  then show ?thesis by (simp add: collect_animals_def authenticate_granted [OF assms(5)])
qed

section \<open>Claims about the collector\<close>




text \<open>
  C10. A cap of \<open>0\<close> is no cap: \<open>collect_animals\<close> with \<open>max_animals = 0\<close> does in
  every state, against every outside world, what it does with \<open>max_animals = None\<close>.
  It does not return at once with nothing saved but goes on until a listing comes back
  empty.
\<close>

theorem collect_animals_cap_zero_is_no_cap:
  "collect_animals E filters (Some 0) w = collect_animals E filters None w"
proof -
  have "cap_reached (Some 0) k = cap_reached None k" for k
    by (simp add: cap_reached_def)
  then have same: "collect_loop E filters (Some 0) 1 0 w' = collect_loop E filters None 1 0 w'" for w'
    by (rule collect_loop_same_cap)
  show ?thesis unfolding collect_animals_def by (simp only: same)
qed

theorem collect_animals_cap_zero_is_no_cap_witness:
  "map_option (\<lambda>(n, w). (n, map petfinder_id (table w), pages_requested (sent w)))
      (collect_animals (mock_env drying_source) dog_filters (Some 0) new_world)
     = Some (Some 2, [''1'', ''2''], [PInt 1, PInt 1])
   \<and> map_option (\<lambda>(n, w). (n, map petfinder_id (table w), pages_requested (sent w)))
      (collect_animals (mock_env drying_source) dog_filters None new_world)
     = Some (Some 2, [''1'', ''2''], [PInt 1, PInt 1])"
proof -
  have "map_option (\<lambda>(n, w). (n, map petfinder_id (table w), pages_requested (sent w)))
      (collect_animals (mock_env drying_source) dog_filters (Some 0) new_world)
     = Some (Some 2, [''1'', ''2''], [PInt 1, PInt 1])"
    by code_simp
  with collect_animals_cap_zero_is_no_cap [of "mock_env drying_source" dog_filters new_world]
  show ?thesis by simp
qed

text \<open>
  C2 does not hold of the code. The collector asks for one page per turn of its loop,
  but \<open>get_animals\<close> replaces the page it is given by its own counter and walks every
  page from 1 at each call. Against the three-page source (five records in all) and with
  a cap of 7, one turn fetches pages 1, 2 and 3, the next fetches them again, and the
  run returns 7 with five rows in the table. Without a cap
  the run never ends, since no listing ever comes back empty.
\<close>

theorem collect_animals_walks_all_pages_each_turn:
  "map_option (\<lambda>(n, w). (n, pages_requested (sent w), map petfinder_id (table w)))
      (collect_animals (mock_env (paged three_pages)) dog_filters (Some 7) new_world)
     = Some (Some 7, [PInt 1, PInt 2, PInt 3, PInt 1, PInt 2, PInt 3],
             [''1'', ''2'', ''3'', ''4'', ''5''])
   \<and> collect_animals (mock_env (paged three_pages)) dog_filters None new_world = None"
proof
  let ?E = "mock_env (paged three_pages)"
  let ?b1 = "[record_of_id 1, record_of_id 2]" and ?b2 = "[record_of_id 3]"
    and ?b3 = "[record_of_id 4, record_of_id 5]"
  let ?td = "\<lparr>access_token = ''mock-token'', expires_in = 3600\<rparr>"
  have src: "get_json ?E = paged three_pages
     \<and> three_pages (Some (PInt 1)) = Some \<lparr>r_animals = Some ?b1, r_total_pages = Some 3\<rparr>
     \<and> three_pages (Some (PInt 2)) = Some \<lparr>r_animals = Some ?b2, r_total_pages = Some 3\<rparr>
     \<and> three_pages (Some (PInt 3)) = Some \<lparr>r_animals = Some ?b3, r_total_pages = Some 3\<rparr>
     \<and> ?b1 \<noteq> [] \<and> ?b2 \<noteq> [] \<and> ?b3 \<noteq> []"
    by (simp add: mock_env_def three_pages_def)
  have granted: "post_token ?E (sent new_world) (PostToken (api_key new_world) (secret new_world))
      = Some ?td"
    by (simp add: mock_env_def)
  define batch where "batch = ?b1 @ ?b2 @ ?b3"
  have acc: "list_all (accepted ?E) batch" unfolding batch_def by code_simp
  have ext: "map external_id batch = map Inr [''1'', ''2'', ''3'', ''4'', ''5'']"
    unfolding batch_def by code_simp
  have len: "length batch = 5" and ne: "batch \<noteq> []" by (simp_all add: batch_def)
  define wa where "wa = snd (authenticate ?E new_world)"
  have auth: "authenticate ?E new_world = (True, wa)"
    by (simp add: wa_def authenticate_granted [OF granted])
  have wa: "table wa = []" "pages_requested (sent wa) = []"
    by (simp_all add: wa_def authenticate_frame authenticate_sent new_world_def)
  from get_animals_three_page_run [OF src]
  obtain w1 where g1: "get_animals ?E
        (AList.update ''limit'' (PInt 100) (AList.update ''page'' (PInt (int 1)) dog_filters)) wa
      = Some (batch, w1)"
    and p1: "pages_requested (sent w1) = pages_requested (sent wa) @ [PInt 1, PInt 2, PInt 3]"
    and t1: "table w1 = table wa"
    unfolding batch_def by blast
  define w2 where "w2 = feed ?E batch w1"
  have s1: "save_each ?E (Some 7) batch 0 w1 = (Exhausted 5, w2)"
    using save_each_below_cap [of ?E batch 0 7 w1] acc len by (simp add: w2_def)
  have turn1: "collect_loop ?E dog_filters (Some 7) 1 0 wa
      = collect_loop ?E dog_filters (Some 7) (1 + 1) 5 w2"
    by (subst collect_loop_turn [OF g1 ne]) (simp add: s1)
  from get_animals_three_page_run [OF src]
  obtain w3 where g2: "get_animals ?E
        (AList.update ''limit'' (PInt 100) (AList.update ''page'' (PInt (int (1 + 1))) dog_filters)) w2
      = Some (batch, w3)"
    and p3: "pages_requested (sent w3) = pages_requested (sent w2) @ [PInt 1, PInt 2, PInt 3]"
    and t3: "table w3 = table w2"
    unfolding batch_def by blast
  define wf where "wf = feed ?E (take 2 batch) w3"
  have "list_all (accepted ?E) (take 2 batch)"
    using acc by (auto simp: list_all_iff dest: in_set_takeD)
  moreover have "take 2 batch \<noteq> []" and "(7::int) = 5 + int (length (take 2 batch))"
    using len by auto
  ultimately have "save_each ?E (Some 7) (take 2 batch @ drop 2 batch) 5 w3
      = (Return 7, feed ?E (take 2 batch) w3)"
    by (intro save_each_reaches_cap) simp_all
  then have s2: "save_each ?E (Some 7) batch 5 w3 = (Return 7, wf)"
    by (simp add: wf_def)
  have turn2: "collect_loop ?E dog_filters (Some 7) (1 + 1) 5 w2 = Some (7, wf)"
    by (subst collect_loop_turn [OF g2 ne]) (simp add: s2)
  have "collect_loop ?E dog_filters (Some 7) 1 0 wa = Some (7, wf)"
    by (simp only: turn1 turn2)
  then have result: "collect_animals ?E dog_filters (Some 7) new_world = Some (Some 7, wf)"
    by (simp add: collect_animals_def auth)
  have pages: "pages_requested (sent wf) = [PInt 1, PInt 2, PInt 3, PInt 1, PInt 2, PInt 3]"
    by (simp add: wf_def w2_def feed_frame p3 p1 wa)
  have "map Inr (map petfinder_id (table w2))
      = map Inr (map petfinder_id (table w1)) @ map external_id batch"
    unfolding w2_def using acc ext by (intro feed_new_ids) (simp_all add: t1 wa)
  then have "map (Inr :: string \<Rightarrow> exn + string) (map petfinder_id (table w2))
      = map Inr [''1'', ''2'', ''3'', ''4'', ''5'']"
    by (simp only: ext t1 wa list.map append_Nil)
  then have ids2: "map petfinder_id (table w2) = [''1'', ''2'', ''3'', ''4'', ''5'']"
    by (rule map_injective) simp
  have "set (map external_id (take 2 batch)) \<subseteq> set (map external_id batch)"
    by (auto dest: in_set_takeD)
  then have "set (map external_id (take 2 batch)) \<subseteq> Inr ` set (map petfinder_id (table w3))"
    by (simp only: ext t3 ids2) simp
  from feed_known_ids [OF this, of ?E]
  have ids: "map petfinder_id (table wf) = [''1'', ''2'', ''3'', ''4'', ''5'']"
    by (simp add: wf_def t3 ids2)
  from result pages ids
  show "map_option (\<lambda>(n, w). (n, pages_requested (sent w), map petfinder_id (table w)))
      (collect_animals ?E dog_filters (Some 7) new_world)
     = Some (Some 7, [PInt 1, PInt 2, PInt 3, PInt 1, PInt 2, PInt 3],
             [''1'', ''2'', ''3'', ''4'', ''5''])"
    by simp
  show "collect_animals ?E dog_filters None new_world = None"
    by (rule collect_animals_never_returns [OF _ _ _ _ granted, of three_pages
          "\<lparr>r_animals = Some ?b1, r_total_pages = Some 3\<rparr>" ?b1])
       (simp_all add: mock_env_def three_pages_def)
qed

text \<open>
  C3 does not hold of the code. When the token endpoint refuses the request,
  \<open>collect_animals\<close> returns \<open>None\<close>, and both callers add that \<open>None\<close> to a number:
  \<open>collect_sample_data\<close> and \<open>collect_by_region\<close> end in a \<open>TypeError\<close> that nothing
  catches.
\<close>

theorem failed_authentication_escapes_as_type_error:
  "map_option fst (collect_animals unauthenticated dog_filters (Some 5) new_world) = Some None
   \<and> map_option fst (collect_sample_data unauthenticated ''90210'' 1000 new_world)
       = Some (Inl TypeError)
   \<and> map_option fst (collect_by_region unauthenticated [''90210'', ''10001''] 500 new_world)
       = Some (Inl TypeError)"
  by code_simp

end
